theory Spec2Isabelle
  imports Main "HOL-Library.Word"
begin

unbundle bit_operations_syntax

section \<open>Bytes and big-endian integers\<close>

type_synonym byte = "8 word"
type_synonym bytes = "byte list"

text \<open>
  \<^verbatim>\<open>encoding/binary\<close>'s \<^verbatim>\<open>BigEndian.PutUint64\<close>, \<^verbatim>\<open>Uint64\<close>,
  \<^verbatim>\<open>Uint32\<close>, \<^verbatim>\<open>PutUint16\<close> and \<^verbatim>\<open>Uint16\<close>, byte by byte as the Go library writes
  them. The readers index their argument as Go does; every caller below has checked the
  length before.
\<close>

definition PutUint64 :: "64 word \<Rightarrow> bytes" where
  "PutUint64 v =
     [ucast (drop_bit 56 v), ucast (drop_bit 48 v), ucast (drop_bit 40 v), ucast (drop_bit 32 v),
      ucast (drop_bit 24 v), ucast (drop_bit 16 v), ucast (drop_bit 8 v), ucast v]"

definition Uint64 :: "bytes \<Rightarrow> 64 word" where
  "Uint64 b =
     ucast (b ! 7) OR push_bit 8 (ucast (b ! 6)) OR push_bit 16 (ucast (b ! 5))
     OR push_bit 24 (ucast (b ! 4)) OR push_bit 32 (ucast (b ! 3)) OR push_bit 40 (ucast (b ! 2))
     OR push_bit 48 (ucast (b ! 1)) OR push_bit 56 (ucast (b ! 0))"

definition Uint32 :: "bytes \<Rightarrow> 32 word" where
  "Uint32 b =
     ucast (b ! 3) OR push_bit 8 (ucast (b ! 2)) OR push_bit 16 (ucast (b ! 1))
     OR push_bit 24 (ucast (b ! 0))"



text \<open>
  A Go function that returns \<^verbatim>\<open>(T, error)\<close> or panics returns \<open>error + T\<close>:
  \<open>Inl (Error msg)\<close> for a returned error, \<open>Inl (Panic msg)\<close> for a failed
  \<^verbatim>\<open>util.Assertf\<close> or \<^verbatim>\<open>AssertNoError\<close>.
\<close>

datatype error = Error string | Panic string

section \<open>Vertex and attacher flags\<close>

text \<open>
  \<^verbatim>\<open>core/vertex/types.go\<close>: \<^verbatim>\<open>Flags uint8\<close> with the two methods
  \<^verbatim>\<open>FlagsUp\<close> (a read) and \<^verbatim>\<open>SetFlagsUp\<close> (the only write).
  The receiver \<^verbatim>\<open>*f\<close> is passed as the current value and, for the write,
  returned updated.
\<close>

type_synonym Flags = "8 word"

definition FlagVertexDefined :: Flags where
  "FlagVertexDefined = 1"

definition FlagVertexConstraintsValid :: Flags where
  "FlagVertexConstraintsValid = 2"

definition FlagVertexTxBytesPersisted :: Flags where
  "FlagVertexTxBytesPersisted = 4"

definition FlagsUp :: "Flags \<Rightarrow> Flags \<Rightarrow> bool" where
  "FlagsUp f fl = (f AND fl = fl)"

definition SetFlagsUp :: "Flags \<Rightarrow> Flags \<Rightarrow> Flags" where
  "SetFlagsUp f fl = f OR fl"

text \<open>
  \<^verbatim>\<open>core/attacher/types.go\<close>: the attacher's \<^verbatim>\<open>Flags uint8\<close> has
  the read \<^verbatim>\<open>FlagsUp\<close> only, on a value receiver.
\<close>

definition FlagKnown :: Flags where
  "FlagKnown = 1"

definition FlagDefined :: Flags where
  "FlagDefined = 2"

definition FlagEndorsementsSolid :: Flags where
  "FlagEndorsementsSolid = 4"

definition FlagInputsSolid :: Flags where
  "FlagInputsSolid = 8"

definition attacher_FlagsUp :: "Flags \<Rightarrow> Flags \<Rightarrow> bool" where
  "attacher_FlagsUp f fl = (f AND fl = fl)"

text \<open>
  The methods of the two flag types as operations on a flags variable: what the
  variable holds after the call. The reads leave it as it is.
\<close>

datatype flags_op = Op_FlagsUp Flags | Op_SetFlagsUp Flags | Op_attacher_FlagsUp Flags

fun flags_after :: "Flags \<Rightarrow> flags_op \<Rightarrow> Flags" where
  "flags_after f (Op_FlagsUp fl) = f"
| "flags_after f (Op_SetFlagsUp fl) = SetFlagsUp f fl"
| "flags_after f (Op_attacher_FlagsUp fl) = f"

fun flags_run :: "Flags \<Rightarrow> flags_op list \<Rightarrow> Flags" where
  "flags_run f [] = f"
| "flags_run f (op # ops) = flags_run (flags_after f op) ops"

section \<open>Heartbeat frames\<close>

text \<open>
  \<^verbatim>\<open>peering\<close>: \<^verbatim>\<open>heartbeatInfo\<close>. The clock is a \<^verbatim>\<open>time.Time\<close>: an
  instant, kept as its number of nanoseconds since the unix epoch, an integer of any size
  (the zero \<^verbatim>\<open>time.Time{}\<close>, year 1, is \<open>-62135596800000000000\<close>).
  \<^verbatim>\<open>Time.UnixNano()\<close> computes this number in \<^verbatim>\<open>int64\<close> arithmetic, so it
  wraps around outside the 64-bit range, and the conversion to \<^verbatim>\<open>uint64\<close> keeps the
  bits; \<^verbatim>\<open>time.Unix(0, nsec)\<close> is the instant \<open>nsec\<close> nanoseconds from the epoch,
  \<open>nsec\<close> read as a signed 64-bit number.
\<close>

record heartbeatInfo =
  clock :: int
  ignoresAllPullRequests :: bool
  acceptsPullRequestsFromStaticPeersOnly :: bool

definition UnixNano :: "int \<Rightarrow> 64 word" where
  "UnixNano t = word_of_int t"

definition time_Unix_nsec :: "64 word \<Rightarrow> int" where
  "time_Unix_nsec nsec = sint nsec"

definition flagIgnoresAllPullRequests :: byte where
  "flagIgnoresAllPullRequests = 1"

text \<open>The source writes this constant as \<^verbatim>\<open>byte(0x00000010)\<close>: hexadecimal, sixteen.\<close>

definition flagAcceptsPullRequestsFromStaticPeersOnly :: byte where
  "flagAcceptsPullRequestsFromStaticPeersOnly = 0x10"

definition heartbeat_flags :: "heartbeatInfo \<Rightarrow> byte" where
  "heartbeat_flags hi =
     (let ret = 0;
          ret = (if ignoresAllPullRequests hi then ret OR flagIgnoresAllPullRequests else ret);
          ret = (if acceptsPullRequestsFromStaticPeersOnly hi
                 then ret OR flagAcceptsPullRequestsFromStaticPeersOnly else ret)
      in ret)"

definition setFromFlags :: "heartbeatInfo \<Rightarrow> byte \<Rightarrow> heartbeatInfo" where
  "setFromFlags hi fl =
     hi\<lparr>ignoresAllPullRequests := (fl AND flagIgnoresAllPullRequests \<noteq> 0),
        acceptsPullRequestsFromStaticPeersOnly :=
          (fl AND flagAcceptsPullRequestsFromStaticPeersOnly \<noteq> 0)\<rparr>"

definition heartbeat_Bytes :: "heartbeatInfo \<Rightarrow> bytes" where
  "heartbeat_Bytes hi = PutUint64 (UnixNano (clock hi)) @ [heartbeat_flags hi]"

definition heartbeatInfoFromBytes :: "bytes \<Rightarrow> error + heartbeatInfo" where
  "heartbeatInfoFromBytes data =
     (if length data \<noteq> 8 + 1 then Inl (Error ''heartbeatInfoFromBytes: wrong data len'')
      else Inr (setFromFlags
                 \<lparr>clock = time_Unix_nsec (Uint64 (take 8 data)), ignoresAllPullRequests = False,
                  acceptsPullRequestsFromStaticPeersOnly = False\<rparr>
                 (data ! 8)))"

section \<open>Pull frames\<close>

text \<open>
  \<^verbatim>\<open>peering\<close>: \<^verbatim>\<open>encodePeerMessageQueryTransactions\<close> and its decoder.
  A \<^verbatim>\<open>core.TransactionID\<close> is a Go array of \<^verbatim>\<open>core.TransactionIDLength\<close>
  bytes, here a byte list of that length. The message type byte
  \<^verbatim>\<open>PeerMessageTypeQueryTransactions\<close> is declared outside the given sources and is
  the parameter \<open>mt\<close> of both functions. \<^verbatim>\<open>core.TransactionIDFromBytes\<close>, also
  outside, is applied to exactly \<^verbatim>\<open>TransactionIDLength\<close> bytes and its error is
  asserted away: it is taken to return the array of these bytes.
\<close>

type_synonym TransactionID = bytes

text \<open>
  Modelled from the spec: \<^verbatim>\<open>core.TransactionIDLength\<close> is declared outside the
  given sources; the spec's pull frame has 32-byte transaction IDs.
\<close>

definition TransactionIDLength :: nat where
  "TransactionIDLength = 32"






section \<open>The pull client\<close>

text \<open>
  \<^verbatim>\<open>core/work_process/pull_client/pull_client.go\<close>. A \<^verbatim>\<open>time.Time\<close> is the
  clock's reading in nanoseconds and a \<^verbatim>\<open>time.Duration\<close> a number of nanoseconds,
  both integers. Every \<^verbatim>\<open>time.Now()\<close> of the source is an argument of the model, so
  that two readings within one call may differ.
\<close>

type_synonym Time = int
type_synonym Duration = int

definition Millisecond :: Duration where
  "Millisecond = 1000000"

definition pullPeriod :: Duration where
  "pullPeriod = 500 * Millisecond"

definition startPullingFromAllAfterNumRandomPulls :: int where
  "startPullingFromAllAfterNumRandomPulls = 10"

definition pullLoopPeriod :: Duration where
  "pullLoopPeriod = 50 * Millisecond"

record pullRecord =
  start :: Time
  nextDeadline :: Time

type_synonym pullList = "TransactionID \<rightharpoonup> pullRecord"

text \<open>
  What the client asks of its environment, in the order it asks: the two peer queries, the
  goroutine started on \<^verbatim>\<open>transactionIn\<close>, and, inside that goroutine, the call of
  \<^verbatim>\<open>TxBytesWithMetadataIn\<close> and the error log; and the log line of the background
  loop when it stops. Traces are left out.
\<close>

datatype 'md action =
    PullTransactionsFromRandomPeer "TransactionID list"
  | PullTransactionsFromAllPeers "TransactionID list"
  | Go_transactionIn bytes
  | TxBytesWithMetadataIn bytes 'md
  | Log_Errorf string
  | Log_Infof string

text \<open>
  \<^verbatim>\<open>startPulling\<close>: \<open>GetTxBytesWithMetadata\<close> is the tx-bytes store's lookup,
  \<open>now1\<close> and \<open>now2\<close> are the readings of the two \<^verbatim>\<open>time.Now()\<close> that build
  the pull record.
\<close>

definition startPulling ::
  "(TransactionID \<Rightarrow> bytes) \<Rightarrow> Time \<Rightarrow> Time \<Rightarrow> TransactionID \<Rightarrow> pullList
   \<Rightarrow> pullList \<times> 'md action list" where
  "startPulling GetTxBytesWithMetadata now1 now2 txid pl =
     (if pl txid \<noteq> None then (pl, [])
      else
        let txBytesWithMetadata = GetTxBytesWithMetadata txid in
        if length txBytesWithMetadata > 0 then (pl, [Go_transactionIn txBytesWithMetadata])
        else (pl(txid \<mapsto> \<lparr>start = now1, nextDeadline = now2 + pullPeriod\<rparr>),
              [PullTransactionsFromRandomPeer [txid]]))"

definition stopPulling :: "TransactionID \<Rightarrow> pullList \<Rightarrow> pullList" where
  "stopPulling txid pl = (if pl txid \<noteq> None then pl(txid := None) else pl)"

text \<open>
  \<^verbatim>\<open>transactionIn\<close>. The package \<^verbatim>\<open>txmetadata\<close> and the workflow are
  outside the given sources and are parameters: the splitter, the metadata parser (which
  may return a nil metadata), the empty metadata, the assignment of
  \<^verbatim>\<open>SourceTypeTxStore\<close> to \<^verbatim>\<open>SourceTypeNonPersistent\<close>, and the error that
  \<^verbatim>\<open>TxBytesWithMetadataIn\<close> answers with.
\<close>

record 'md txin_environment =
  SplitTxBytesWithMetadata :: "bytes \<Rightarrow> error + bytes \<times> bytes"
  TransactionMetadataFromBytes :: "bytes \<Rightarrow> error + 'md option"
  emptyTransactionMetadata :: 'md
  setSourceTypeTxStore :: "'md \<Rightarrow> 'md"
  TxBytesWithMetadataIn_error :: "bytes \<Rightarrow> 'md \<Rightarrow> error option"

definition transactionIn :: "'md txin_environment \<Rightarrow> bytes \<Rightarrow> 'md action list" where
  "transactionIn env txBytesWithMetadata =
     (case SplitTxBytesWithMetadata env txBytesWithMetadata of
        Inl err \<Rightarrow> [Log_Errorf ''[pull_client]: error while parsing tx metadata'']
      | Inr (metadataBytes, txBytes) \<Rightarrow>
          (case TransactionMetadataFromBytes env metadataBytes of
             Inl err \<Rightarrow> [Log_Errorf ''[pull_client]: error while parsing tx metadata'']
           | Inr parsed \<Rightarrow>
               let metadata = (case parsed of None \<Rightarrow> emptyTransactionMetadata env | Some m \<Rightarrow> m);
                   metadata = setSourceTypeTxStore env metadata
               in TxBytesWithMetadataIn txBytes metadata
                  # (case TxBytesWithMetadataIn_error env txBytes metadata of
                       None \<Rightarrow> []
                     | Some err \<Rightarrow> [Log_Errorf ''[pull_client]: tx parse error while pull''])))"

text \<open>
  \<^verbatim>\<open>maturedPullList\<close>. Go ranges over the map in an order of its own choosing: the
  order is the list of keys \<open>order\<close>. \<open>nowis\<close> is the reading taken before the loop.
  \<^verbatim>\<open>time.Since(rec.start)\<close> reads the clock again each time it is evaluated, and it
  is evaluated only while \<^verbatim>\<open>atLeastOneIsStuck\<close> is false: \<open>clk k\<close> is the
  reading of its \<open>k\<close>-th evaluation in this call.
\<close>

fun maturedLoop ::
  "Time \<Rightarrow> (nat \<Rightarrow> Time) \<Rightarrow> TransactionID list \<Rightarrow> TransactionID list \<Rightarrow> bool \<Rightarrow> nat \<Rightarrow> pullList
   \<Rightarrow> TransactionID list \<times> bool \<times> pullList" where
  "maturedLoop nowis clk [] buf atLeastOneIsStuck k pl = (buf, atLeastOneIsStuck, pl)"
| "maturedLoop nowis clk (txid # rest) buf atLeastOneIsStuck k pl =
     (case pl txid of
        None \<Rightarrow> maturedLoop nowis clk rest buf atLeastOneIsStuck k pl
      | Some rec \<Rightarrow>
          if nextDeadline rec < nowis then
            (if \<not> atLeastOneIsStuck then
               maturedLoop nowis clk rest (buf @ [txid])
                 (clk k - start rec > pullPeriod * startPullingFromAllAfterNumRandomPulls) (Suc k)
                 (pl(txid \<mapsto> \<lparr>start = start rec, nextDeadline = nowis + pullPeriod\<rparr>))
             else
               maturedLoop nowis clk rest (buf @ [txid]) atLeastOneIsStuck k
                 (pl(txid \<mapsto> \<lparr>start = start rec, nextDeadline = nowis + pullPeriod\<rparr>)))
          else maturedLoop nowis clk rest buf atLeastOneIsStuck k pl)"

definition maturedPullList ::
  "Time \<Rightarrow> (nat \<Rightarrow> Time) \<Rightarrow> TransactionID list \<Rightarrow> pullList
   \<Rightarrow> TransactionID list \<times> bool \<times> pullList" where
  "maturedPullList nowis clk order pl = maturedLoop nowis clk order [] False 0 pl"

text \<open>
  One turn of \<^verbatim>\<open>backgroundPullLoop\<close> after the timer of \<^verbatim>\<open>pullLoopPeriod\<close>
  has fired, and the loop over the wake-ups it sees: a timer tick with the clock readings
  and the map order of that turn, or the context's \<^verbatim>\<open>Done\<close>, which ends it. With no
  wake-up left to see, the loop is waiting in its \<^verbatim>\<open>select\<close>.
\<close>

definition pullLoopIteration ::
  "Time \<Rightarrow> (nat \<Rightarrow> Time) \<Rightarrow> TransactionID list \<Rightarrow> pullList \<Rightarrow> pullList \<times> 'md action list" where
  "pullLoopIteration nowis clk order pl =
     (case maturedPullList nowis clk order pl of
        (buffer, stuck, pl') \<Rightarrow>
          (pl', if length buffer > 0
                then (if stuck then [PullTransactionsFromAllPeers buffer]
                      else [PullTransactionsFromRandomPeer buffer])
                else []))"

datatype wakeup = Done | After Time "nat \<Rightarrow> Time" "TransactionID list"

fun backgroundPullLoop :: "wakeup list \<Rightarrow> pullList \<Rightarrow> pullList \<times> 'md action list" where
  "backgroundPullLoop [] pl = (pl, [])"
| "backgroundPullLoop (Done # ws) pl = (pl, [Log_Infof ''[pull_client] background loop stopped''])"
| "backgroundPullLoop (After nowis clk order # ws) pl =
     (case pullLoopIteration nowis clk order pl of
        (pl', acts) \<Rightarrow>
          (case backgroundPullLoop ws pl' of (pl'', acts') \<Rightarrow> (pl'', acts @ acts')))"

text \<open>
  The words of the pull client's description, for comparison with the loop: the entries
  whose deadline has passed at \<open>nowis\<close>, the pull list with their deadlines moved, and
  whether one of the selected entries is measured older than ten pull periods (the
  \<open>i\<close>-th selected entry is measured at the reading \<open>clk i\<close>).
\<close>

definition matured :: "Time \<Rightarrow> pullList \<Rightarrow> TransactionID \<Rightarrow> bool" where
  "matured nowis pl txid = (case pl txid of None \<Rightarrow> False | Some rec \<Rightarrow> nextDeadline rec < nowis)"

definition reset_deadline :: "Time \<Rightarrow> pullList \<Rightarrow> pullList" where
  "reset_deadline nowis pl =
     (\<lambda>txid. case pl txid of
        None \<Rightarrow> None
      | Some rec \<Rightarrow> if nextDeadline rec < nowis
                    then Some \<lparr>start = start rec, nextDeadline = nowis + pullPeriod\<rparr>
                    else Some rec)"

fun measured_stuck :: "(nat \<Rightarrow> Time) \<Rightarrow> nat \<Rightarrow> pullList \<Rightarrow> TransactionID list \<Rightarrow> bool" where
  "measured_stuck clk k pl [] = False"
| "measured_stuck clk k pl (txid # sel) =
     ((case pl txid of
         None \<Rightarrow> False
       | Some rec \<Rightarrow> clk k - start rec > pullPeriod * startPullingFromAllAfterNumRandomPulls)
      \<or> measured_stuck clk (Suc k) pl sel)"

section \<open>The multi-state store\<close>

text \<open>
  \<^verbatim>\<open>multistate/state.go\<close>. Commitments, chain IDs and output IDs are byte strings;
  a slot is a \<^verbatim>\<open>uint32\<close>. The record of \<^verbatim>\<open>RootRecord\<close> leaves the type of
  the ledger coverage open: \<^verbatim>\<open>state.go\<close> declares it \<^verbatim>\<open>uint64\<close>, the
  serialization test builds it from two numbers.
\<close>

type_synonym Slot = "32 word"
type_synonym VCommitment = bytes
type_synonym ChainID = bytes
type_synonym OutputID = bytes

record 'cov RootRecord =
  Root :: VCommitment
  SequencerID :: ChainID
  LedgerCoverage :: 'cov
  SlotInflation :: "64 word"
  Supply :: "64 word"
  NumTransactions :: "32 word"

text \<open>
  \<^verbatim>\<open>RootRecordParams\<close>; its last three fields carry the prefix \<open>p_\<close>, their
  names being those of \<^verbatim>\<open>RootRecord\<close>'s fields.
\<close>

record RootRecordParams =
  StemOutputID :: OutputID
  SeqID :: ChainID
  Coverage :: "64 word"
  p_SlotInflation :: "64 word"
  p_Supply :: "64 word"
  p_NumTransactions :: "32 word"

definition PartitionLedgerState :: byte where
  "PartitionLedgerState = 0"

definition PartitionAccounts :: byte where
  "PartitionAccounts = 1"

definition PartitionChainID :: byte where
  "PartitionChainID = 2"

definition PartitionCommittedTransactionID :: byte where
  "PartitionCommittedTransactionID = 3"

subsection \<open>The persistent store and its batched writer\<close>

text \<open>
  Modelled from the spec: the key-value engine behind \<^verbatim>\<open>global.StateStore\<close> and the
  helpers \<^verbatim>\<open>writeRootRecord\<close>, \<^verbatim>\<open>writeLatestSlot\<close> and
  \<^verbatim>\<open>FetchLatestCommittedSlot\<close> are outside the given sources. The spec's persisted
  layout has the trie's nodes, the root records in a partition of their own keyed by
  branch transaction ID, and the latest committed slot under a singleton key: the store is
  a record of these three, values kept decoded. A marker that was never written reads as
  slot 0. A batched writer records the \<^verbatim>\<open>Set\<close> calls made on it; its
  \<^verbatim>\<open>Commit\<close> either fails and writes nothing or applies them all, in order, which is
  what the comment on \<^verbatim>\<open>Updatable\<close> states of it (\<open>DB (store) is updated atomically
  with all mutations in one DB transaction\<close>).
\<close>

record StateStore =
  trie_nodes :: "bytes \<rightharpoonup> bytes"
  root_records :: "TransactionID \<rightharpoonup> (64 word) RootRecord"
  latest_slot :: "Slot option"

datatype kv_write =
    SetTrieNode bytes bytes
  | SetRootRecord TransactionID "(64 word) RootRecord"
  | SetLatestSlot Slot

fun apply_write :: "StateStore \<Rightarrow> kv_write \<Rightarrow> StateStore" where
  "apply_write st (SetTrieNode k v) = st\<lparr>trie_nodes := (trie_nodes st)(k \<mapsto> v)\<rparr>"
| "apply_write st (SetRootRecord branchID rr) = st\<lparr>root_records := (root_records st)(branchID \<mapsto> rr)\<rparr>"
| "apply_write st (SetLatestSlot slot) = st\<lparr>latest_slot := Some slot\<rparr>"

definition batch_Commit :: "error option \<Rightarrow> StateStore \<Rightarrow> kv_write list \<Rightarrow> StateStore \<times> error option" where
  "batch_Commit failure st batch =
     (case failure of
        Some err \<Rightarrow> (st, Some err)
      | None \<Rightarrow> (foldl apply_write st batch, None))"

definition writeRootRecord :: "kv_write list \<Rightarrow> TransactionID \<Rightarrow> (64 word) RootRecord \<Rightarrow> kv_write list" where
  "writeRootRecord batch branchID rr = batch @ [SetRootRecord branchID rr]"

definition writeLatestSlot :: "kv_write list \<Rightarrow> Slot \<Rightarrow> kv_write list" where
  "writeLatestSlot batch slot = batch @ [SetLatestSlot slot]"

definition FetchLatestCommittedSlot :: "StateStore \<Rightarrow> Slot" where
  "FetchLatestCommittedSlot st = (case latest_slot st of None \<Rightarrow> 0 | Some slot \<Rightarrow> slot)"

text \<open>
  Modelled from the spec: the package \<^verbatim>\<open>ledger\<close> is outside the given sources. An
  output ID is a transaction ID followed by a one-byte output index, so
  \<^verbatim>\<open>OutputIDFromBytes\<close> accepts exactly that many bytes and
  \<^verbatim>\<open>OutputID.TransactionID()\<close> is the leading part. Where a transaction ID keeps
  its slot is not said: \<^verbatim>\<open>OutputID.Slot()\<close> is a parameter, \<open>Slot_of\<close>.
\<close>

definition OutputIDLength :: nat where
  "OutputIDLength = TransactionIDLength + 1"

definition OutputIDFromBytes :: "bytes \<Rightarrow> error + OutputID" where
  "OutputIDFromBytes data =
     (if length data \<noteq> OutputIDLength then Inl (Error ''OutputIDFromBytes: wrong data length'')
      else Inr data)"

definition OutputID_TransactionID :: "OutputID \<Rightarrow> TransactionID" where
  "OutputID_TransactionID oid = take TransactionIDLength oid"

subsection \<open>Updatable\<close>

text \<open>
  The trie is the library \<^verbatim>\<open>unitrie\<close>'s and \<^verbatim>\<open>UpdateTrie\<close> with its
  \<^verbatim>\<open>Mutations\<close> is outside the given sources: the trie is a type parameter and
  the operations on it are fields of an environment. Each returns the trie it leaves
  behind: \<^verbatim>\<open>UpdateTrie\<close> mutates it in place, also when it fails;
  \<^verbatim>\<open>trie.Commit(batch)\<close> calls \<^verbatim>\<open>Set\<close> on the batch for each node of the
  delta and returns the new root; \<^verbatim>\<open>immutable.NewTrieUpdatable\<close> returns a trie and
  an error. \<open>engine_failure\<close> is the error, if any, that the engine answers to the
  commit of a batch.
\<close>

record ('trie, 'muts) state_environment =
  UpdateTrie :: "'trie \<Rightarrow> 'muts \<Rightarrow> 'trie \<times> error option"
  trie_Commit :: "'trie \<Rightarrow> 'trie \<times> (bytes \<times> bytes) list \<times> VCommitment"
  NewTrieUpdatable :: "StateStore \<Rightarrow> VCommitment \<Rightarrow> 'trie \<times> error option"
  engine_failure :: "StateStore \<Rightarrow> kv_write list \<Rightarrow> error option"
  Slot_of :: "OutputID \<Rightarrow> Slot"

record 'trie Updatable =
  trie :: 'trie
  store :: StateStore

text \<open>The batch that \<^verbatim>\<open>updateUTXOLedgerDB\<close> fills between creating and committing it.\<close>

definition update_batch ::
  "('trie, 'muts) state_environment \<Rightarrow> StateStore \<Rightarrow> (bytes \<times> bytes) list \<Rightarrow> VCommitment
   \<Rightarrow> RootRecordParams option \<Rightarrow> kv_write list" where
  "update_batch env st delta newRoot rootRecordsParams =
     (let batch = [];
          batch = batch @ map (\<lambda>(k, v). SetTrieNode k v) delta
      in case rootRecordsParams of
           None \<Rightarrow> batch
         | Some par \<Rightarrow>
             let latestSlot = FetchLatestCommittedSlot st;
                 batch = (if latestSlot < Slot_of env (StemOutputID par)
                          then writeLatestSlot batch (Slot_of env (StemOutputID par))
                          else batch);
                 branchID = OutputID_TransactionID (StemOutputID par)
             in writeRootRecord batch branchID
                  \<lparr>Root = newRoot, SequencerID = SeqID par, LedgerCoverage = Coverage par,
                   SlotInflation = p_SlotInflation par, Supply = p_Supply par,
                   NumTransactions = p_NumTransactions par\<rparr>)"

definition updateUTXOLedgerDB ::
  "('trie, 'muts) state_environment \<Rightarrow> ('trie \<Rightarrow> 'trie \<times> error option) \<Rightarrow> RootRecordParams option
   \<Rightarrow> 'trie Updatable \<Rightarrow> error option \<times> 'trie Updatable" where
  "updateUTXOLedgerDB env updateFun rootRecordsParams u =
     (case updateFun (trie u) of
        (trie1, Some err) \<Rightarrow> (Some err, u\<lparr>trie := trie1\<rparr>)
      | (trie1, None) \<Rightarrow>
          (case trie_Commit env trie1 of
             (trie2, delta, newRoot) \<Rightarrow>
               let batch = update_batch env (store u) delta newRoot rootRecordsParams in
               (case batch_Commit (engine_failure env (store u) batch) (store u) batch of
                  (store1, Some err) \<Rightarrow> (Some err, \<lparr>trie = trie2, store = store1\<rparr>)
                | (store1, None) \<Rightarrow>
                    (case NewTrieUpdatable env store1 newRoot of
                       (trie3, Some err) \<Rightarrow> (Some err, \<lparr>trie = trie3, store = store1\<rparr>)
                     | (trie3, None) \<Rightarrow> (None, \<lparr>trie = trie3, store = store1\<rparr>)))))"

definition Update ::
  "('trie, 'muts) state_environment \<Rightarrow> 'muts \<Rightarrow> RootRecordParams option \<Rightarrow> 'trie Updatable
   \<Rightarrow> error option \<times> 'trie Updatable" where
  "Update env muts rootRecordParams u =
     updateUTXOLedgerDB env (\<lambda>trie. UpdateTrie env (Updatable.trie u) muts) rootRecordParams u"

text \<open>
  The store the spec describes after a commit, for comparison with what the batch leaves:
  the trie's delta added to the nodes (a later write of a key wins), the root record under
  the branch transaction ID and the marker moved to a strictly greater slot, the last two
  only with root-record parameters.
\<close>

definition committed_store ::
  "('trie, 'muts) state_environment \<Rightarrow> StateStore \<Rightarrow> (bytes \<times> bytes) list \<Rightarrow> VCommitment
   \<Rightarrow> RootRecordParams option \<Rightarrow> StateStore" where
  "committed_store env st delta newRoot rootRecordsParams =
     \<lparr>trie_nodes = trie_nodes st ++ map_of (rev delta),
      root_records =
        (case rootRecordsParams of
           None \<Rightarrow> root_records st
         | Some par \<Rightarrow>
             (root_records st)(OutputID_TransactionID (StemOutputID par) \<mapsto>
                \<lparr>Root = newRoot, SequencerID = SeqID par, LedgerCoverage = Coverage par,
                 SlotInflation = p_SlotInflation par, Supply = p_Supply par,
                 NumTransactions = p_NumTransactions par\<rparr>)),
      latest_slot =
        (case rootRecordsParams of
           None \<Rightarrow> latest_slot st
         | Some par \<Rightarrow>
             if FetchLatestCommittedSlot st < Slot_of env (StemOutputID par)
             then Some (Slot_of env (StemOutputID par))
             else latest_slot st)\<rparr>"

text \<open>A run of updates on one \<^verbatim>\<open>Updatable\<close>, chained as the type's comment allows.\<close>

fun Updates ::
  "('trie, 'muts) state_environment \<Rightarrow> ('muts \<times> RootRecordParams option) list \<Rightarrow> 'trie Updatable
   \<Rightarrow> 'trie Updatable" where
  "Updates env [] u = u"
| "Updates env ((muts, par) # calls) u = Updates env calls (snd (Update env muts par u))"

text \<open>
  Modelled from the spec: the attacher's finalisation of a branch is outside the given
  sources. The spec has it write the root record with
  \<open>supply = prev.supply + slotInflation\<close>, \<open>prev\<close> being the root record of the
  predecessor branch; these are the parameters it hands to \<^verbatim>\<open>Update\<close>.
\<close>

definition branch_RootRecordParams ::
  "'cov RootRecord \<Rightarrow> OutputID \<Rightarrow> ChainID \<Rightarrow> 64 word \<Rightarrow> 64 word \<Rightarrow> 32 word \<Rightarrow> RootRecordParams" where
  "branch_RootRecordParams prev stemOutputID seqID coverage slotInflation numTransactions =
     \<lparr>StemOutputID = stemOutputID, SeqID = seqID, Coverage = coverage,
      p_SlotInflation = slotInflation, p_Supply = Supply prev + slotInflation,
      p_NumTransactions = numTransactions\<rparr>"

subsection \<open>An instance\<close>

text \<open>
  A small environment on which the functions above can be run: the trie is a counter,
  the mutations either apply or fail, the delta of a commit has two nodes, the engine does
  not fail and the slot is the big-endian number in the first four bytes of an output ID.
\<close>

definition example_env :: "(nat, bool) state_environment" where
  "example_env =
     \<lparr>UpdateTrie = (\<lambda>t ok. if ok then (Suc t, None) else (Suc t, Some (Error ''mutation failed''))),
      trie_Commit = (\<lambda>t. (t, [([0, 1], [2]), ([0, 3], [4])], [of_nat t])),
      NewTrieUpdatable = (\<lambda>st root. (0, None)),
      engine_failure = (\<lambda>st batch. None),
      Slot_of = (\<lambda>oid. Uint32 (take 4 oid))\<rparr>"

definition example_stem :: OutputID where
  "example_stem = [0, 0, 0, 7] @ replicate 28 1 @ [0]"

definition example_params :: RootRecordParams where
  "example_params =
     \<lparr>StemOutputID = example_stem, SeqID = replicate 32 9, Coverage = 1000,
      p_SlotInflation = 100, p_Supply = 1100, p_NumTransactions = 3\<rparr>"

definition example_updatable :: "nat Updatable" where
  "example_updatable =
     \<lparr>trie = 0, store = \<lparr>trie_nodes = Map.empty, root_records = Map.empty, latest_slot = Some 5\<rparr>\<rparr>"

definition example_prev :: "(64 word) RootRecord" where
  "example_prev =
     \<lparr>Root = [0], SequencerID = replicate 32 9, LedgerCoverage = 900,
      SlotInflation = 0, Supply = 1000, NumTransactions = 1\<rparr>"

subsection \<open>Readable: the stem output\<close>

text \<open>
  The trie reader is the library's. Its content is a list of key-value pairs with distinct
  keys, in the order its iterator visits them. \<^verbatim>\<open>Get\<close> of a missing key returns
  no bytes. \<^verbatim>\<open>ledger.StemAccountID\<close> is outside the given sources and a parameter
  of \<^verbatim>\<open>GetStem\<close>.
\<close>

type_synonym TrieReader = "(bytes \<times> bytes) list"

definition trie_Get :: "TrieReader \<Rightarrow> bytes \<Rightarrow> bytes" where
  "trie_Get tr k = (case map_of tr k of None \<Rightarrow> [] | Some v \<Rightarrow> v)"

definition IterateKeys :: "TrieReader \<Rightarrow> bytes \<Rightarrow> bytes list" where
  "IterateKeys tr prefix = filter (\<lambda>k. take (length prefix) k = prefix) (map fst tr)"

definition Readable_getUTXO :: "TrieReader \<Rightarrow> OutputID \<Rightarrow> bytes \<times> bool" where
  "Readable_getUTXO tr oid =
     (let ret = trie_Get tr (PartitionLedgerState # oid)
      in if length ret = 0 then ([], False) else (ret, True))"

text \<open>
  The callback of \<^verbatim>\<open>GetStem\<close> over the keys the iterator yields; the state is
  \<^verbatim>\<open>count\<close>, \<^verbatim>\<open>retSlot\<close> and \<^verbatim>\<open>retBytes\<close>. The callback always
  returns true, so only a failed assertion stops the iteration.
\<close>

fun GetStem_iterate ::
  "(OutputID \<Rightarrow> Slot) \<Rightarrow> TrieReader \<Rightarrow> nat \<Rightarrow> bytes list \<Rightarrow> nat \<times> Slot \<times> bytes
   \<Rightarrow> error + nat \<times> Slot \<times> bytes" where
  "GetStem_iterate slot_of tr n [] st = Inr st"
| "GetStem_iterate slot_of tr n (k # ks) (count, retSlot, retBytes) =
     (if count \<noteq> 0
      then Inl (Panic ''inconsistency: must be exactly 1 index record for stem output'')
      else (case OutputIDFromBytes (drop n k) of
              Inl err \<Rightarrow> Inl (Panic ''AssertNoError'')
            | Inr oid \<Rightarrow>
                (case Readable_getUTXO tr oid of
                   (bytes, found) \<Rightarrow>
                     if \<not> found then Inl (Panic ''can't find stem output'')
                     else GetStem_iterate slot_of tr n ks (count + 1, slot_of oid, bytes))))"

definition GetStem :: "(OutputID \<Rightarrow> Slot) \<Rightarrow> bytes \<Rightarrow> TrieReader \<Rightarrow> error + Slot \<times> bytes" where
  "GetStem slot_of StemAccountID tr =
     (let accountPrefix = [PartitionAccounts, of_nat (length StemAccountID)] @ StemAccountID
      in case GetStem_iterate slot_of tr (length accountPrefix) (IterateKeys tr accountPrefix)
                (0, 0, []) of
           Inl err \<Rightarrow> Inl err
         | Inr (count, retSlot, retBytes) \<Rightarrow> Inr (retSlot, retBytes))"

text \<open>The prefix of the stem account's index records, as \<^verbatim>\<open>GetStem\<close> builds it.\<close>

definition stem_prefix :: "bytes \<Rightarrow> bytes" where
  "stem_prefix StemAccountID = [PartitionAccounts, of_nat (length StemAccountID)] @ StemAccountID"

section \<open>Big-endian integers\<close>





lemma length_PutUint64: "length (PutUint64 v) = 8"
  by (simp add: PutUint64_def)


section \<open>Flags are monotone\<close>

lemma flags_after_keeps: "f AND flags_after f op = f"
  by (cases op) (simp_all add: SetFlagsUp_def word_bw_assocs [symmetric] word_ao_absorbs)

lemma flags_run_keeps: "f AND flags_run f ops = f"
proof (induction ops arbitrary: f)
  case Nil
  show ?case by simp
next
  case (Cons op ops)
  have "f AND flags_run f (op # ops) = (f AND flags_after f op) AND flags_run (flags_after f op) ops"
    by (simp add: flags_after_keeps)
  also have "\<dots> = f AND (flags_after f op AND flags_run (flags_after f op) ops)"
    by (simp add: word_bw_assocs)
  also have "\<dots> = f AND flags_after f op"
    by (simp add: Cons.IH)
  finally show ?case by (simp add: flags_after_keeps)
qed

text \<open>
  Claim C7. After \<^verbatim>\<open>SetFlagsUp(fl)\<close> on flags \<open>f\<close> the value is \<open>f OR fl\<close>;
  every bit of \<open>f\<close> is still set, \<^verbatim>\<open>FlagsUp(fl)\<close> holds, and no sequence of
  the operations defined on the flag types clears a bit that was set.
\<close>

theorem flags_monotone:
  "SetFlagsUp f fl = f OR fl
   \<and> (\<forall>n. bit f n \<longrightarrow> bit (SetFlagsUp f fl) n)
   \<and> FlagsUp (SetFlagsUp f fl) fl
   \<and> attacher_FlagsUp (SetFlagsUp f fl) fl
   \<and> (\<forall>n. bit f n \<longrightarrow> bit (flags_run f ops) n)"
proof -
  have a: "\<forall>n. bit f n \<longrightarrow> bit (SetFlagsUp f fl) n"
    by (simp add: SetFlagsUp_def bit_or_iff)
  have b: "FlagsUp (SetFlagsUp f fl) fl"
    by (simp add: FlagsUp_def SetFlagsUp_def word_ao_absorbs)
  have c: "attacher_FlagsUp (SetFlagsUp f fl) fl"
    by (simp add: attacher_FlagsUp_def SetFlagsUp_def word_ao_absorbs)
  have d: "\<forall>n. bit f n \<longrightarrow> bit (flags_run f ops) n"
  proof (intro allI impI)
    fix n assume "bit f n"
    then have "bit (f AND flags_run f ops) n" by (simp add: flags_run_keeps)
    then show "bit (flags_run f ops) n" by (simp add: bit_and_iff)
  qed
  from a b c d show ?thesis by (simp add: SetFlagsUp_def)
qed

theorem flags_monotone_witness:
  "SetFlagsUp 5 2 = 7 \<and> bit (SetFlagsUp 5 2) 0 \<and> bit (SetFlagsUp 5 2) 2
   \<and> FlagsUp (SetFlagsUp 5 2) 2
   \<and> bit (flags_run 5 [Op_SetFlagsUp 2, Op_FlagsUp 8, Op_SetFlagsUp 8]) 2"
proof -
  have s: "SetFlagsUp 5 2 = 7" by (simp add: SetFlagsUp_def)
  have b0: "bit (5 :: Flags) 0" by simp
  have b2: "bit (5 :: Flags) 2" by (simp add: bit_numeral_iff bit_iff_odd)
  note th = flags_monotone [of 5 2 "[Op_SetFlagsUp 2, Op_FlagsUp 8, Op_SetFlagsUp 8]"]
  from th s b0 b2 show ?thesis by blast
qed

section \<open>Heartbeat frames: layout and round trip\<close>





text \<open>
  What does hold of the frame: nine bytes, the clock first, bit 0 of the flags for
  \<^verbatim>\<open>ignoresAllPullRequests\<close>, and bit 4, never bit 1, for
  \<^verbatim>\<open>acceptsPullRequestsFromStaticPeersOnly\<close>; any other length is rejected.
\<close>

lemma heartbeat_frame_layout:
  "length (heartbeat_Bytes hi) = 9
   \<and> take 8 (heartbeat_Bytes hi) = PutUint64 (UnixNano (clock hi))
   \<and> (bit (heartbeat_Bytes hi ! 8) 0 \<longleftrightarrow> ignoresAllPullRequests hi)
   \<and> (bit (heartbeat_Bytes hi ! 8) 4 \<longleftrightarrow> acceptsPullRequestsFromStaticPeersOnly hi)
   \<and> \<not> bit (heartbeat_Bytes hi ! 8) 1"
  by (cases "ignoresAllPullRequests hi"; cases "acceptsPullRequestsFromStaticPeersOnly hi")
     (simp_all add: heartbeat_Bytes_def nth_append length_PutUint64 heartbeat_flags_def
        flagIgnoresAllPullRequests_def flagAcceptsPullRequestsFromStaticPeersOnly_def
        bit_numeral_iff bit_iff_odd)

lemma heartbeat_rejects_length:
  "length data \<noteq> 9 \<Longrightarrow>
   heartbeatInfoFromBytes data = Inl (Error ''heartbeatInfoFromBytes: wrong data len'')"
  by (simp add: heartbeatInfoFromBytes_def)

text \<open>
  Claim C3, at the input where the code departs from it. A node that accepts pull requests
  from static peers only sends the flags byte 16 (bit 4), not 2 (bit 1); and a frame whose
  flags byte is 2 decodes to a node that does not have the property.
\<close>

theorem heartbeat_static_only_flag_is_16:
  "heartbeat_Bytes \<lparr>clock = 0, ignoresAllPullRequests = False,
       acceptsPullRequestsFromStaticPeersOnly = True\<rparr> = [0, 0, 0, 0, 0, 0, 0, 0, 16]
   \<and> heartbeatInfoFromBytes [0, 0, 0, 0, 0, 0, 0, 0, 2] =
       Inr \<lparr>clock = 0, ignoresAllPullRequests = False,
            acceptsPullRequestsFromStaticPeersOnly = False\<rparr>"
  by (simp add: heartbeat_Bytes_def PutUint64_def heartbeat_flags_def
      flagIgnoresAllPullRequests_def flagAcceptsPullRequestsFromStaticPeersOnly_def
      heartbeatInfoFromBytes_def setFromFlags_def Uint64_def UnixNano_def time_Unix_nsec_def)

section \<open>Pull frames: round trip\<close>




section \<open>The pull client's background loop\<close>

lemma measured_stuck_cong:
  "(\<And>t. t \<in> set sel \<Longrightarrow> pl t = pl' t) \<Longrightarrow> measured_stuck clk k pl sel = measured_stuck clk k pl' sel"
  by (induction sel arbitrary: k) simp_all

lemma filter_matured_cong:
  "(\<And>t. t \<in> set ks \<Longrightarrow> pl t = pl' t) \<Longrightarrow> filter (matured nowis pl) ks = filter (matured nowis pl') ks"
  by (rule filter_cong) (simp_all add: matured_def)

lemma maturedLoop_result:
  "distinct ks \<Longrightarrow>
   maturedLoop nowis clk ks buf stuck k pl =
     (buf @ filter (matured nowis pl) ks,
      stuck \<or> measured_stuck clk k pl (filter (matured nowis pl) ks),
      (\<lambda>t. if t \<in> set ks then reset_deadline nowis pl t else pl t))"
proof (induction ks arbitrary: buf stuck k pl)
  case Nil
  show ?case by simp
next
  case (Cons txid rest)
  then have d: "distinct rest" and n: "txid \<notin> set rest" by simp_all
  show ?case
  proof (cases "pl txid")
    case None
    then have m: "\<not> matured nowis pl txid" by (simp add: matured_def)
    have r: "reset_deadline nowis pl txid = pl txid" using None by (simp add: reset_deadline_def)
    show ?thesis using None m r Cons.IH [OF d] by (auto simp add: fun_eq_iff)
  next
    case (Some rec)
    show ?thesis
    proof (cases "nextDeadline rec < nowis")
      case False
      then have m: "\<not> matured nowis pl txid" using Some by (simp add: matured_def)
      have r: "reset_deadline nowis pl txid = pl txid" using Some False by (simp add: reset_deadline_def)
      show ?thesis using Some False m r Cons.IH [OF d] by (auto simp add: fun_eq_iff)
    next
      case True
      let ?pl = "pl(txid \<mapsto> \<lparr>start = start rec, nextDeadline = nowis + pullPeriod\<rparr>)"
      have m: "matured nowis pl txid" using Some True by (simp add: matured_def)
      have same: "\<And>t. t \<in> set rest \<Longrightarrow> ?pl t = pl t" using n by auto
      have f: "filter (matured nowis ?pl) rest = filter (matured nowis pl) rest"
        by (rule filter_matured_cong) (rule same)
      have s: "measured_stuck clk j ?pl (filter (matured nowis pl) rest)
               = measured_stuck clk j pl (filter (matured nowis pl) rest)" for j
        by (rule measured_stuck_cong) (use n in auto)
      have p: "(\<lambda>t. if t \<in> set rest then reset_deadline nowis ?pl t else ?pl t)
               = (\<lambda>t. if t \<in> set (txid # rest) then reset_deadline nowis pl t else pl t)"
        using Some True n by (auto simp add: fun_eq_iff reset_deadline_def)
      have sel: "filter (matured nowis pl) (txid # rest) = txid # filter (matured nowis pl) rest"
        using m by simp
      show ?thesis
      proof (cases stuck)
        case True
        have "maturedLoop nowis clk (txid # rest) buf stuck k pl
              = maturedLoop nowis clk rest (buf @ [txid]) stuck k ?pl"
          using Some \<open>nextDeadline rec < nowis\<close> True by simp
        also have "\<dots> = ((buf @ [txid]) @ filter (matured nowis ?pl) rest,
                    stuck \<or> measured_stuck clk k ?pl (filter (matured nowis ?pl) rest),
                    (\<lambda>t. if t \<in> set rest then reset_deadline nowis ?pl t else ?pl t))"
          by (rule Cons.IH [OF d])
        also have "\<dots> = (buf @ filter (matured nowis pl) (txid # rest),
                    stuck \<or> measured_stuck clk k pl (filter (matured nowis pl) (txid # rest)),
                    (\<lambda>t. if t \<in> set (txid # rest) then reset_deadline nowis pl t else pl t))"
          using True by (simp only: f p sel) simp
        finally show ?thesis .
      next
        case False
        let ?s = "clk k - start rec > pullPeriod * startPullingFromAllAfterNumRandomPulls"
        have "maturedLoop nowis clk (txid # rest) buf stuck k pl
              = maturedLoop nowis clk rest (buf @ [txid]) ?s (Suc k) ?pl"
          using Some \<open>nextDeadline rec < nowis\<close> False by simp
        also have "\<dots> = ((buf @ [txid]) @ filter (matured nowis ?pl) rest,
                    ?s \<or> measured_stuck clk (Suc k) ?pl (filter (matured nowis ?pl) rest),
                    (\<lambda>t. if t \<in> set rest then reset_deadline nowis ?pl t else ?pl t))"
          by (rule Cons.IH [OF d])
        also have "\<dots> = (buf @ filter (matured nowis pl) (txid # rest),
                    stuck \<or> measured_stuck clk k pl (filter (matured nowis pl) (txid # rest)),
                    (\<lambda>t. if t \<in> set (txid # rest) then reset_deadline nowis pl t else pl t))"
          using False Some by (simp only: f p s sel) simp
        finally show ?thesis .
      qed
    qed
  qed
qed

lemma maturedPullList_result:
  assumes "distinct order" and "set order = dom pl"
  shows "maturedPullList nowis clk order pl =
           (filter (matured nowis pl) order,
            measured_stuck clk 0 pl (filter (matured nowis pl) order),
            reset_deadline nowis pl)"
proof -
  have "(\<lambda>t. if t \<in> set order then reset_deadline nowis pl t else pl t) = reset_deadline nowis pl"
    using assms(2) by (auto simp add: fun_eq_iff reset_deadline_def domIff split: option.splits)
  then show ?thesis
    unfolding maturedPullList_def by (simp add: maturedLoop_result [OF assms(1)])
qed

lemma measured_stuck_iff:
  "measured_stuck clk k pl sel \<longleftrightarrow>
     (\<exists>i < length sel. \<exists>rec. pl (sel ! i) = Some rec
        \<and> clk (k + i) - start rec > pullPeriod * startPullingFromAllAfterNumRandomPulls)"
proof (induction sel arbitrary: k)
  case Nil
  show ?case by simp
next
  case (Cons t sel)
  have split: "(\<exists>i < Suc (length sel). P i) = (P 0 \<or> (\<exists>i < length sel. P (Suc i)))" for P
    by (metis less_Suc_eq_0_disj)
  show ?case
    by (simp add: Cons.IH split split: option.splits)
qed

lemma measured_stuck_frozen_clock:
  "(\<And>k. clk k = nowis) \<Longrightarrow>
   measured_stuck clk k pl sel \<longleftrightarrow>
     (\<exists>txid \<in> set sel. \<exists>rec. pl txid = Some rec
        \<and> nowis - start rec > pullPeriod * startPullingFromAllAfterNumRandomPulls)"
  by (induction sel arbitrary: k) (auto split: option.splits)

lemma measured_stuck_later_clock:
  "(\<And>k. nowis \<le> clk k) \<Longrightarrow>
   \<exists>txid \<in> set sel. \<exists>rec. pl txid = Some rec
        \<and> nowis - start rec > pullPeriod * startPullingFromAllAfterNumRandomPulls \<Longrightarrow>
   measured_stuck clk k pl sel"
proof (induction sel arbitrary: k)
  case Nil
  then show ?case by simp
next
  case (Cons t sel)
  from Cons.prems(2) consider
    (here) rec where "pl t = Some rec"
      "nowis - start rec > pullPeriod * startPullingFromAllAfterNumRandomPulls"
    | (later) "\<exists>txid \<in> set sel. \<exists>rec. pl txid = Some rec
        \<and> nowis - start rec > pullPeriod * startPullingFromAllAfterNumRandomPulls"
    by auto
  then show ?case
  proof cases
    case here
    moreover have "nowis \<le> clk k" by (rule Cons.prems(1))
    ultimately show ?thesis by simp
  next
    case later
    then have "measured_stuck clk (Suc k) pl sel"
      using Cons.IH Cons.prems(1) by blast
    then show ?thesis by simp
  qed
qed

lemma selected_set:
  "set order = dom pl \<Longrightarrow>
   set (filter (matured nowis pl) order) = {txid. \<exists>rec. pl txid = Some rec \<and> nextDeadline rec < nowis}"
  by (auto simp add: matured_def split: option.splits)

text \<open>Every turn of the loop that a timer tick starts is one \<open>pullLoopIteration\<close>.\<close>

lemma backgroundPullLoop_turn:
  "backgroundPullLoop (After nowis clk order # ws) pl =
     (let turn = pullLoopIteration nowis clk order pl;
          later = backgroundPullLoop ws (fst turn)
      in (fst later, snd turn @ snd later))"
  by (simp add: case_prod_beta Let_def)

text \<open>
  Claim C2. One turn of the background loop (whose timer is \<^verbatim>\<open>pullLoopPeriod\<close>,
  50 ms; \<^verbatim>\<open>pullPeriod\<close> is 500 ms) selects exactly the entries of the pull list whose
  \<^verbatim>\<open>nextDeadline\<close> lies before the reading \<open>nowis\<close>, each once; gives each of them
  the deadline \<open>nowis\<close> + 500 ms and keeps its \<^verbatim>\<open>start\<close>, leaving the other
  entries as they are; and sends the selected batch, when there is one, to all peers if a
  selected entry is measured older than 10 \<times> 500 ms and to one random peer otherwise.
  The age of the \<open>i\<close>-th selected entry is measured by \<^verbatim>\<open>time.Since\<close> at the
  reading \<open>clk i\<close>: with a clock that stands still during the turn this is
  \<open>nowis - start\<close>, and with any clock that does not run backwards an entry older than
  the bound at \<open>nowis\<close> makes the batch go to all peers. With nothing selected the guard
  \<^verbatim>\<open>len(buffer) > 0\<close> sends nothing.
\<close>

theorem pull_loop_iteration:
  assumes "distinct order" and "set order = dom pl"
  shows "pullLoopPeriod = 50 * Millisecond \<and> pullPeriod = 500 * Millisecond \<and>
    (case pullLoopIteration nowis clk order pl of
      (pl', acts) \<Rightarrow>
        (let selected = filter (matured nowis pl) order;
             stuck = measured_stuck clk 0 pl selected
         in distinct selected
          \<and> set selected = {txid. \<exists>rec. pl txid = Some rec \<and> nextDeadline rec < nowis}
          \<and> (\<forall>txid. pl' txid =
                (case pl txid of
                   None \<Rightarrow> None
                 | Some rec \<Rightarrow>
                     if nextDeadline rec < nowis
                     then Some \<lparr>start = start rec, nextDeadline = nowis + 500 * Millisecond\<rparr>
                     else Some rec))
          \<and> acts = (if selected = [] then []
                     else if stuck then [PullTransactionsFromAllPeers selected]
                     else [PullTransactionsFromRandomPeer selected])
          \<and> stuck = (\<exists>i < length selected. \<exists>rec. pl (selected ! i) = Some rec
                          \<and> clk i - start rec > 10 * (500 * Millisecond))
          \<and> ((\<forall>k. clk k = nowis) \<longrightarrow>
               stuck = (\<exists>txid \<in> set selected. \<exists>rec. pl txid = Some rec
                          \<and> nowis - start rec > 10 * (500 * Millisecond)))
          \<and> ((\<forall>k. nowis \<le> clk k) \<longrightarrow>
               (\<exists>txid \<in> set selected. \<exists>rec. pl txid = Some rec
                          \<and> nowis - start rec > 10 * (500 * Millisecond)) \<longrightarrow> stuck)))"
proof -
  let ?sel = "filter (matured nowis pl) order"
  have x: "pullPeriod * startPullingFromAllAfterNumRandomPulls = 10 * (500 * Millisecond)"
    by (simp add: pullPeriod_def startPullingFromAllAfterNumRandomPulls_def)
  have it: "pullLoopIteration nowis clk order pl =
          (reset_deadline nowis pl,
           if ?sel = [] then []
           else if measured_stuck clk 0 pl ?sel then [PullTransactionsFromAllPeers ?sel]
           else [PullTransactionsFromRandomPeer ?sel])"
    unfolding pullLoopIteration_def by (simp add: maturedPullList_result [OF assms])
  have d: "distinct ?sel" using assms(1) by simp
  have s: "set ?sel = {txid. \<exists>rec. pl txid = Some rec \<and> nextDeadline rec < nowis}"
    using assms(2) by (rule selected_set)
  have r: "\<forall>txid. reset_deadline nowis pl txid =
                (case pl txid of
                   None \<Rightarrow> None
                 | Some rec \<Rightarrow>
                     if nextDeadline rec < nowis
                     then Some \<lparr>start = start rec, nextDeadline = nowis + 500 * Millisecond\<rparr>
                     else Some rec)"
    by (simp add: reset_deadline_def pullPeriod_def split: option.splits)
  have f: "(\<forall>k. clk k = nowis) \<longrightarrow>
               measured_stuck clk 0 pl ?sel = (\<exists>txid \<in> set ?sel. \<exists>rec. pl txid = Some rec
                          \<and> nowis - start rec > 10 * (500 * Millisecond))"
    using measured_stuck_frozen_clock [of clk nowis 0 pl ?sel] by (simp only: x) blast
  have l: "(\<forall>k. nowis \<le> clk k) \<longrightarrow>
               (\<exists>txid \<in> set ?sel. \<exists>rec. pl txid = Some rec
                          \<and> nowis - start rec > 10 * (500 * Millisecond)) \<longrightarrow> measured_stuck clk 0 pl ?sel"
    using measured_stuck_later_clock [of nowis clk ?sel pl 0] by (simp only: x) blast
  have e: "measured_stuck clk 0 pl ?sel = (\<exists>i < length ?sel. \<exists>rec. pl (?sel ! i) = Some rec
                          \<and> clk i - start rec > 10 * (500 * Millisecond))"
    using measured_stuck_iff [of clk 0 pl ?sel] by (simp only: x add_0)
  have c: "pullLoopPeriod = 50 * Millisecond \<and> pullPeriod = 500 * Millisecond"
    by (simp add: pullLoopPeriod_def pullPeriod_def)
  show ?thesis
    unfolding it Let_def prod.case using c d s r e f l by blast
qed

theorem pull_loop_iteration_witness:
  "distinct [[1 :: byte], [2], [3]]
   \<and> set [[1 :: byte], [2], [3]]
       = dom [[1] \<mapsto> \<lparr>start = 0, nextDeadline = 100\<rparr>,
              [2] \<mapsto> \<lparr>start = 5000000000, nextDeadline = 9000000000\<rparr>,
              [3] \<mapsto> \<lparr>start = 5900000000, nextDeadline = 5999999999\<rparr>]
   \<and> snd (pullLoopIteration 6000000000 (\<lambda>k. 6000000000) [[1], [2], [3]]
            [[1] \<mapsto> \<lparr>start = 0, nextDeadline = 100\<rparr>,
             [2] \<mapsto> \<lparr>start = 5000000000, nextDeadline = 9000000000\<rparr>,
             [3] \<mapsto> \<lparr>start = 5900000000, nextDeadline = 5999999999\<rparr>])
       = [PullTransactionsFromAllPeers [[1], [3]] :: unit action]
   \<and> fst (pullLoopIteration 6000000000 (\<lambda>k. 6000000000) [[1], [2], [3]]
            [[1] \<mapsto> \<lparr>start = 0, nextDeadline = 100\<rparr>,
             [2] \<mapsto> \<lparr>start = 5000000000, nextDeadline = 9000000000\<rparr>,
             [3] \<mapsto> \<lparr>start = 5900000000, nextDeadline = 5999999999\<rparr>] :: pullList \<times> unit action list) [3]
       = Some \<lparr>start = 5900000000, nextDeadline = 6500000000\<rparr>"
proof -
  let ?order = "[[1 :: byte], [2], [3]]"
  let ?pl = "[[1 :: byte] \<mapsto> \<lparr>start = 0, nextDeadline = 100\<rparr>,
              [2] \<mapsto> \<lparr>start = 5000000000, nextDeadline = 9000000000\<rparr>,
              [3] \<mapsto> \<lparr>start = 5900000000, nextDeadline = 5999999999\<rparr>]"
  have d: "distinct ?order" by simp
  have s: "set ?order = dom ?pl" by auto
  have sel: "filter (matured 6000000000 ?pl) ?order = [[1], [3]]"
    by (simp add: matured_def)
  have st: "measured_stuck (\<lambda>k. 6000000000) 0 ?pl [[1], [3]]"
    by (simp add: pullPeriod_def Millisecond_def startPullingFromAllAfterNumRandomPulls_def)
  obtain pl' acts where it:
    "(pullLoopIteration 6000000000 (\<lambda>k. 6000000000) ?order ?pl :: pullList \<times> unit action list)
       = (pl', acts)"
    by (cases "pullLoopIteration 6000000000 (\<lambda>k. 6000000000) ?order ?pl :: pullList \<times> unit action list")
  note th = pull_loop_iteration [OF d s, of 6000000000 "\<lambda>k. 6000000000", where ?'a = unit]
  from th have acts: "acts = [PullTransactionsFromAllPeers [[1], [3]]]"
    unfolding it sel Let_def prod.case using st by simp
  from th have "\<forall>txid. pl' txid =
                (case ?pl txid of
                   None \<Rightarrow> None
                 | Some rec \<Rightarrow>
                     if nextDeadline rec < 6000000000
                     then Some \<lparr>start = start rec, nextDeadline = 6000000000 + 500 * Millisecond\<rparr>
                     else Some rec)"
    unfolding it sel Let_def prod.case by blast
  then have "pl' [3] = Some \<lparr>start = 5900000000, nextDeadline = 6500000000\<rparr>"
    by (simp add: Millisecond_def)
  with acts it d s show ?thesis by simp
qed

section \<open>Starting a pull\<close>

text \<open>
  Claim C8. For a transaction ID that is not in the pull list: when the tx-bytes store
  returns bytes for it, \<^verbatim>\<open>startPulling\<close> starts \<^verbatim>\<open>transactionIn\<close> on these
  bytes and leaves the pull list as it is, and \<^verbatim>\<open>transactionIn\<close> hands the
  transaction bytes, split from their metadata, to the workflow's
  \<^verbatim>\<open>TxBytesWithMetadataIn\<close>; when the store returns none, the pull list gains the entry
  with \<^verbatim>\<open>start\<close> the clock's reading and \<^verbatim>\<open>nextDeadline\<close> the clock's
  (next) reading plus 500 ms, and one pull request for this one ID goes to one random peer.
\<close>

theorem start_pulling_new_txid:
  fixes env :: "'md txin_environment"
  assumes "pl txid = None"
  shows "(length (GetTxBytesWithMetadata txid) > 0 \<longrightarrow>
            startPulling GetTxBytesWithMetadata now1 now2 txid pl
              = (pl, [Go_transactionIn (GetTxBytesWithMetadata txid) :: 'md action]))
       \<and> (length (GetTxBytesWithMetadata txid) = 0 \<longrightarrow>
            startPulling GetTxBytesWithMetadata now1 now2 txid pl
              = (pl(txid \<mapsto> \<lparr>start = now1, nextDeadline = now2 + 500 * Millisecond\<rparr>),
                 [PullTransactionsFromRandomPeer [txid] :: 'md action]))
       \<and> (\<forall>metadataBytes txBytes parsed.
            SplitTxBytesWithMetadata env (GetTxBytesWithMetadata txid) = Inr (metadataBytes, txBytes)
            \<and> TransactionMetadataFromBytes env metadataBytes = Inr parsed \<longrightarrow>
            (let metadata = setSourceTypeTxStore env
                              (case parsed of None \<Rightarrow> emptyTransactionMetadata env | Some m \<Rightarrow> m)
             in transactionIn env (GetTxBytesWithMetadata txid)
                  = TxBytesWithMetadataIn txBytes metadata
                    # (case TxBytesWithMetadataIn_error env txBytes metadata of
                         None \<Rightarrow> []
                       | Some err \<Rightarrow> [Log_Errorf ''[pull_client]: tx parse error while pull''])))"
  using assms by (simp add: startPulling_def transactionIn_def pullPeriod_def Let_def)

theorem start_pulling_new_txid_witness:
  "(Map.empty :: pullList) [7] = None
   \<and> startPulling (\<lambda>t. if t = [7] then [0, 42] else []) 10 11 [7] Map.empty
        = (Map.empty, [Go_transactionIn [0, 42] :: unit action])
   \<and> startPulling (\<lambda>t. if t = [7] then [0, 42] else []) 10 11 [8] Map.empty
        = ([[8] \<mapsto> \<lparr>start = 10, nextDeadline = 500000011\<rparr>],
           [PullTransactionsFromRandomPeer [[8]] :: unit action])
   \<and> transactionIn
        \<lparr>SplitTxBytesWithMetadata = (\<lambda>b. Inr (take 1 b, drop 1 b)),
         TransactionMetadataFromBytes = (\<lambda>b. Inr None),
         emptyTransactionMetadata = (),
         setSourceTypeTxStore = (\<lambda>m. m),
         TxBytesWithMetadataIn_error = (\<lambda>b m. None)\<rparr> [0, 42]
        = [TxBytesWithMetadataIn [42] ()]"
proof -
  let ?get = "\<lambda>t :: TransactionID. if t = [7] then [0, 42 :: byte] else []"
  let ?env = "\<lparr>SplitTxBytesWithMetadata = (\<lambda>b. Inr (take 1 b, drop 1 b)),
         TransactionMetadataFromBytes = (\<lambda>b. Inr None),
         emptyTransactionMetadata = (),
         setSourceTypeTxStore = (\<lambda>m. m),
         TxBytesWithMetadataIn_error = (\<lambda>b m. None)\<rparr> :: unit txin_environment"
  have e: "(Map.empty :: pullList) [7] = None" "(Map.empty :: pullList) [8] = None" by simp_all
  note a = start_pulling_new_txid [where pl = "Map.empty" and txid = "[7]"
      and GetTxBytesWithMetadata = ?get and ?now1.0 = 10 and ?now2.0 = 11 and env = ?env, OF e(1)]
  note b = start_pulling_new_txid [where pl = "Map.empty" and txid = "[8]"
      and GetTxBytesWithMetadata = ?get and ?now1.0 = 10 and ?now2.0 = 11 and env = ?env, OF e(2)]
  from a have 1: "startPulling ?get 10 11 [7] Map.empty = (Map.empty, [Go_transactionIn [0, 42] :: unit action])"
    by simp
  from b have 2: "startPulling ?get 10 11 [8] Map.empty
        = ([[8] \<mapsto> \<lparr>start = 10, nextDeadline = 500000011\<rparr>],
           [PullTransactionsFromRandomPeer [[8]] :: unit action])"
    by (simp add: Millisecond_def)
  from a have 3: "transactionIn ?env [0, 42] = [TxBytesWithMetadataIn [42] ()]"
    by simp
  from e(1) 1 2 3 show ?thesis by blast
qed

text \<open>
  Claim C10. For a transaction ID that is in the pull list, \<^verbatim>\<open>startPulling\<close>
  returns the pull list it was given, with the entry's \<^verbatim>\<open>start\<close> and
  \<^verbatim>\<open>nextDeadline\<close> and with the same keys, and asks nothing of the peers.
\<close>

theorem start_pulling_idempotent:
  assumes "pl txid = Some rec"
  shows "startPulling GetTxBytesWithMetadata now1 now2 txid pl = (pl, [])
       \<and> fst (startPulling GetTxBytesWithMetadata now1 now2 txid pl) txid = Some rec
       \<and> dom (fst (startPulling GetTxBytesWithMetadata now1 now2 txid pl)) = dom pl"
  using assms by (simp add: startPulling_def)

theorem start_pulling_idempotent_witness:
  "[[8 :: byte] \<mapsto> \<lparr>start = 10, nextDeadline = 500000011\<rparr>] [8]
      = Some \<lparr>start = 10, nextDeadline = 500000011\<rparr>
   \<and> startPulling (\<lambda>t. []) 900 901 [8] [[8] \<mapsto> \<lparr>start = 10, nextDeadline = 500000011\<rparr>]
      = ([[8] \<mapsto> \<lparr>start = 10, nextDeadline = 500000011\<rparr>], [] :: unit action list)"
proof -
  have e: "[[8 :: byte] \<mapsto> \<lparr>start = 10, nextDeadline = 500000011\<rparr>] [8]
      = Some \<lparr>start = 10, nextDeadline = 500000011\<rparr>" by simp
  from start_pulling_idempotent [where pl = "[[8] \<mapsto> \<lparr>start = 10, nextDeadline = 500000011\<rparr>]"
      and txid = "[8]" and GetTxBytesWithMetadata = "\<lambda>t. []" and ?now1.0 = 900 and ?now2.0 = 901, OF e] e
  show ?thesis by blast
qed

section \<open>Updates of the store\<close>

lemma foldl_SetTrieNode:
  "foldl apply_write st (map (\<lambda>(k, v). SetTrieNode k v) delta)
     = st\<lparr>trie_nodes := trie_nodes st ++ map_of (rev delta)\<rparr>"
proof (induction delta arbitrary: st)
  case Nil
  show ?case by simp
next
  case (Cons kv delta)
  obtain k v where kv: "kv = (k, v)" by (cases kv)
  let ?st = "st\<lparr>trie_nodes := (trie_nodes st)(k \<mapsto> v)\<rparr>"
  have e: "(trie_nodes st)(k \<mapsto> v) ++ map_of (rev delta)
          = trie_nodes st ++ map_of (rev (kv # delta))"
    by (auto simp add: kv fun_eq_iff map_add_def split: option.splits)
  have "foldl apply_write st (map (\<lambda>(k, v). SetTrieNode k v) (kv # delta))
          = foldl apply_write ?st (map (\<lambda>(k, v). SetTrieNode k v) delta)"
    by (simp add: kv)
  also have "\<dots> = ?st\<lparr>trie_nodes := trie_nodes ?st ++ map_of (rev delta)\<rparr>"
    by (rule Cons.IH)
  also have "\<dots> = st\<lparr>trie_nodes := (trie_nodes st)(k \<mapsto> v) ++ map_of (rev delta)\<rparr>"
    by simp
  finally show ?case
    by (simp only: e)
qed

lemma apply_update_batch:
  "foldl apply_write st (update_batch env st delta newRoot par)
     = committed_store env st delta newRoot par"
  by (cases par)
     (simp_all add: update_batch_def committed_store_def foldl_SetTrieNode writeLatestSlot_def
        writeRootRecord_def Let_def)

lemma Update_trie_error:
  "UpdateTrie env (trie u) muts = (trie1, Some err) \<Longrightarrow>
   Update env muts par u = (Some err, u\<lparr>trie := trie1\<rparr>)"
  by (simp add: Update_def updateUTXOLedgerDB_def)

lemma Update_commit_error:
  "UpdateTrie env (trie u) muts = (trie1, None) \<Longrightarrow>
   trie_Commit env trie1 = (trie2, delta, newRoot) \<Longrightarrow>
   engine_failure env (store u) (update_batch env (store u) delta newRoot par) = Some err \<Longrightarrow>
   Update env muts par u = (Some err, \<lparr>trie = trie2, store = store u\<rparr>)"
  by (simp add: Update_def updateUTXOLedgerDB_def batch_Commit_def)

lemma Update_committed:
  "UpdateTrie env (trie u) muts = (trie1, None) \<Longrightarrow>
   trie_Commit env trie1 = (trie2, delta, newRoot) \<Longrightarrow>
   engine_failure env (store u) (update_batch env (store u) delta newRoot par) = None \<Longrightarrow>
   Update env muts par u =
     (snd (NewTrieUpdatable env (committed_store env (store u) delta newRoot par) newRoot),
      \<lparr>trie = fst (NewTrieUpdatable env (committed_store env (store u) delta newRoot par) newRoot),
       store = committed_store env (store u) delta newRoot par\<rparr>)"
  by (simp add: Update_def updateUTXOLedgerDB_def batch_Commit_def apply_update_batch
      split: prod.splits option.splits)

lemma Update_store_cases:
  obtains (unchanged) "store (snd (Update env muts par u)) = store u" "fst (Update env muts par u) \<noteq> None"
  | (committed) trie1 trie2 delta newRoot where
      "UpdateTrie env (trie u) muts = (trie1, None)"
      "trie_Commit env trie1 = (trie2, delta, newRoot)"
      "engine_failure env (store u) (update_batch env (store u) delta newRoot par) = None"
      "store (snd (Update env muts par u)) = committed_store env (store u) delta newRoot par"
proof -
  obtain trie1 e where t: "UpdateTrie env (trie u) muts = (trie1, e)"
    by (cases "UpdateTrie env (trie u) muts")
  show thesis
  proof (cases e)
    case (Some err)
    with t have "Update env muts par u = (Some err, u\<lparr>trie := trie1\<rparr>)"
      by (simp add: Update_trie_error)
    then show ?thesis by (intro unchanged) simp_all
  next
    case None
    obtain trie2 delta newRoot where c: "trie_Commit env trie1 = (trie2, delta, newRoot)"
      by (cases "trie_Commit env trie1")
    show ?thesis
    proof (cases "engine_failure env (store u) (update_batch env (store u) delta newRoot par)")
      case (Some err)
      from Update_commit_error [OF t [unfolded None] c Some]
      show ?thesis by (intro unchanged) simp_all
    next
      case n: None
      from Update_committed [OF t [unfolded None] c n]
      show ?thesis using t None c n by (intro committed) simp_all
    qed
  qed
qed

lemma Fetch_committed:
  "FetchLatestCommittedSlot (committed_store env st delta newRoot par) =
     (case par of
        None \<Rightarrow> FetchLatestCommittedSlot st
      | Some p \<Rightarrow> if FetchLatestCommittedSlot st < Slot_of env (StemOutputID p)
                  then Slot_of env (StemOutputID p) else FetchLatestCommittedSlot st)"
  by (cases par) (simp_all add: committed_store_def FetchLatestCommittedSlot_def)

lemma Fetch_Update_mono:
  "FetchLatestCommittedSlot (store u) \<le> FetchLatestCommittedSlot (store (snd (Update env muts par u)))"
proof (cases rule: Update_store_cases [of env muts par u])
  case unchanged
  then show ?thesis by simp
next
  case (committed trie1 trie2 delta newRoot)
  then show ?thesis by (auto simp add: Fetch_committed split: option.splits)
qed

lemma Fetch_Updates_mono:
  "FetchLatestCommittedSlot (store u) \<le> FetchLatestCommittedSlot (store (Updates env calls u))"
proof (induction calls arbitrary: u)
  case Nil
  show ?case by simp
next
  case (Cons c calls)
  obtain muts par where c: "c = (muts, par)" by (cases c)
  have "FetchLatestCommittedSlot (store u)
          \<le> FetchLatestCommittedSlot (store (snd (Update env muts par u)))"
    by (rule Fetch_Update_mono)
  also have "\<dots> \<le> FetchLatestCommittedSlot (store (Updates env calls (snd (Update env muts par u))))"
    by (rule Cons.IH)
  finally show ?case by (simp add: c)
qed

lemma update_batch_eq:
  "update_batch env st delta newRoot par =
     map (\<lambda>(k, v). SetTrieNode k v) delta
     @ (case par of
          None \<Rightarrow> []
        | Some p \<Rightarrow>
            (if FetchLatestCommittedSlot st < Slot_of env (StemOutputID p)
             then [SetLatestSlot (Slot_of env (StemOutputID p))] else [])
            @ [SetRootRecord (OutputID_TransactionID (StemOutputID p))
                 \<lparr>Root = newRoot, SequencerID = SeqID p, LedgerCoverage = Coverage p,
                  SlotInflation = p_SlotInflation p, Supply = p_Supply p,
                  NumTransactions = p_NumTransactions p\<rparr>])"
  by (cases par) (simp_all add: update_batch_def writeLatestSlot_def writeRootRecord_def Let_def)

text \<open>
  Claim C1. When \<^verbatim>\<open>UpdateTrie\<close> fails, \<^verbatim>\<open>Update\<close> returns its error and the
  store is the one before the call. When it succeeds, one batch receives the trie's delta,
  then the latest-slot marker (when the new slot is greater) and the root record (both only
  with root-record parameters), and the store changes at the batch's single commit or not
  at all: after any call the store is either unchanged or the committed store, which holds
  the delta, the root record and the marker together.
\<close>

theorem Update_all_or_nothing:
  "(\<forall>trie1 err. UpdateTrie env (trie u) muts = (trie1, Some err) \<longrightarrow>
       fst (Update env muts par u) = Some err \<and> store (snd (Update env muts par u)) = store u)
   \<and> (\<forall>trie1 trie2 delta newRoot.
        UpdateTrie env (trie u) muts = (trie1, None) \<and> trie_Commit env trie1 = (trie2, delta, newRoot) \<longrightarrow>
        (let batch = update_batch env (store u) delta newRoot par
         in batch = map (\<lambda>(k, v). SetTrieNode k v) delta
              @ (case par of
                   None \<Rightarrow> []
                 | Some p \<Rightarrow>
                     (if FetchLatestCommittedSlot (store u) < Slot_of env (StemOutputID p)
                      then [SetLatestSlot (Slot_of env (StemOutputID p))] else [])
                     @ [SetRootRecord (OutputID_TransactionID (StemOutputID p))
                          \<lparr>Root = newRoot, SequencerID = SeqID p, LedgerCoverage = Coverage p,
                           SlotInflation = p_SlotInflation p, Supply = p_Supply p,
                           NumTransactions = p_NumTransactions p\<rparr>])
          \<and> (case engine_failure env (store u) batch of
                Some err \<Rightarrow>
                  fst (Update env muts par u) = Some err
                  \<and> store (snd (Update env muts par u)) = store u
              | None \<Rightarrow>
                  store (snd (Update env muts par u)) = foldl apply_write (store u) batch
                  \<and> store (snd (Update env muts par u))
                      = committed_store env (store u) delta newRoot par)))
   \<and> (store (snd (Update env muts par u)) = store u
      \<or> (\<exists>trie1 trie2 delta newRoot.
            UpdateTrie env (trie u) muts = (trie1, None)
            \<and> trie_Commit env trie1 = (trie2, delta, newRoot)
            \<and> store (snd (Update env muts par u))
                = committed_store env (store u) delta newRoot par))"
proof (intro conjI allI impI)
  fix trie1 err
  assume "UpdateTrie env (trie u) muts = (trie1, Some err)"
  then have "Update env muts par u = (Some err, u\<lparr>trie := trie1\<rparr>)"
    by (rule Update_trie_error)
  then show "fst (Update env muts par u) = Some err"
    and "store (snd (Update env muts par u)) = store u"
    by simp_all
next
  fix trie1 trie2 delta newRoot
  assume a: "UpdateTrie env (trie u) muts = (trie1, None) \<and> trie_Commit env trie1 = (trie2, delta, newRoot)"
  let ?batch = "update_batch env (store u) delta newRoot par"
  have "case engine_failure env (store u) ?batch of
                Some err \<Rightarrow>
                  fst (Update env muts par u) = Some err
                  \<and> store (snd (Update env muts par u)) = store u
              | None \<Rightarrow>
                  store (snd (Update env muts par u)) = foldl apply_write (store u) ?batch
                  \<and> store (snd (Update env muts par u))
                      = committed_store env (store u) delta newRoot par"
  proof (cases "engine_failure env (store u) ?batch")
    case (Some err)
    from Update_commit_error [OF conjunct1 [OF a] conjunct2 [OF a] Some] Some
    show ?thesis by simp
  next
    case None
    from Update_committed [OF conjunct1 [OF a] conjunct2 [OF a] None] None
    show ?thesis by (simp add: apply_update_batch)
  qed
  then show "let batch = update_batch env (store u) delta newRoot par
         in batch = map (\<lambda>(k, v). SetTrieNode k v) delta
              @ (case par of
                   None \<Rightarrow> []
                 | Some p \<Rightarrow>
                     (if FetchLatestCommittedSlot (store u) < Slot_of env (StemOutputID p)
                      then [SetLatestSlot (Slot_of env (StemOutputID p))] else [])
                     @ [SetRootRecord (OutputID_TransactionID (StemOutputID p))
                          \<lparr>Root = newRoot, SequencerID = SeqID p, LedgerCoverage = Coverage p,
                           SlotInflation = p_SlotInflation p, Supply = p_Supply p,
                           NumTransactions = p_NumTransactions p\<rparr>])
          \<and> (case engine_failure env (store u) batch of
                Some err \<Rightarrow>
                  fst (Update env muts par u) = Some err
                  \<and> store (snd (Update env muts par u)) = store u
              | None \<Rightarrow>
                  store (snd (Update env muts par u)) = foldl apply_write (store u) batch
                  \<and> store (snd (Update env muts par u))
                      = committed_store env (store u) delta newRoot par)"
    unfolding Let_def using update_batch_eq [of env "store u" delta newRoot par] by blast
next
  show "store (snd (Update env muts par u)) = store u
      \<or> (\<exists>trie1 trie2 delta newRoot.
            UpdateTrie env (trie u) muts = (trie1, None)
            \<and> trie_Commit env trie1 = (trie2, delta, newRoot)
            \<and> store (snd (Update env muts par u))
                = committed_store env (store u) delta newRoot par)"
    by (cases rule: Update_store_cases [of env muts par u]) blast+
qed

text \<open>
  Claim C6. A successful \<^verbatim>\<open>Update\<close> with root-record parameters sets the marker to
  the stem output's slot exactly when that slot is strictly greater than the latest
  committed slot read from the store, and otherwise leaves the marker as it was; no call,
  whatever it returns, changes the marker in another way; and the latest committed slot
  read after any call, or after any run of calls, is not below the one read before.
\<close>

theorem latest_slot_monotone:
  "(\<forall>p. par = Some p \<and> fst (Update env muts par u) = None \<longrightarrow>
       latest_slot (store (snd (Update env muts par u)))
         = (if FetchLatestCommittedSlot (store u) < Slot_of env (StemOutputID p)
            then Some (Slot_of env (StemOutputID p))
            else latest_slot (store u)))
   \<and> (latest_slot (store (snd (Update env muts par u))) = latest_slot (store u)
      \<or> (\<exists>p. par = Some p
            \<and> FetchLatestCommittedSlot (store u) < Slot_of env (StemOutputID p)
            \<and> latest_slot (store (snd (Update env muts par u)))
                = Some (Slot_of env (StemOutputID p))))
   \<and> FetchLatestCommittedSlot (store u)
        \<le> FetchLatestCommittedSlot (store (snd (Update env muts par u)))
   \<and> FetchLatestCommittedSlot (store u)
        \<le> FetchLatestCommittedSlot (store (Updates env calls u))"
proof (intro conjI allI impI)
  fix p
  assume a: "par = Some p \<and> fst (Update env muts par u) = None"
  show "latest_slot (store (snd (Update env muts par u)))
         = (if FetchLatestCommittedSlot (store u) < Slot_of env (StemOutputID p)
            then Some (Slot_of env (StemOutputID p))
            else latest_slot (store u))"
  proof (cases rule: Update_store_cases [of env muts par u])
    case unchanged
    with a show ?thesis by simp
  next
    case (committed trie1 trie2 delta newRoot)
    with a show ?thesis by (simp add: committed_store_def)
  qed
next
  show "latest_slot (store (snd (Update env muts par u))) = latest_slot (store u)
      \<or> (\<exists>p. par = Some p
            \<and> FetchLatestCommittedSlot (store u) < Slot_of env (StemOutputID p)
            \<and> latest_slot (store (snd (Update env muts par u)))
                = Some (Slot_of env (StemOutputID p)))"
  proof (cases rule: Update_store_cases [of env muts par u])
    case unchanged
    then show ?thesis by simp
  next
    case (committed trie1 trie2 delta newRoot)
    then show ?thesis by (cases par) (simp_all add: committed_store_def)
  qed
next
  show "FetchLatestCommittedSlot (store u)
        \<le> FetchLatestCommittedSlot (store (snd (Update env muts par u)))"
    by (rule Fetch_Update_mono)
next
  show "FetchLatestCommittedSlot (store u)
        \<le> FetchLatestCommittedSlot (store (Updates env calls u))"
    by (rule Fetch_Updates_mono)
qed

text \<open>
  Claim C5. When the parameters of a branch are those of the spec's finalisation, with
  the supply computed from the predecessor's root record, the root record that a successful
  \<^verbatim>\<open>Update\<close> stores for the branch has the supply of the predecessor plus its own slot
  inflation, the sum taken on 64-bit unsigned numbers.
\<close>

theorem branch_supply_identity:
  assumes "Update env muts (Some (branch_RootRecordParams prev stemOutputID seqID coverage slotInflation n)) u
             = (None, u')"
  shows "\<exists>rr. root_records (store u') (OutputID_TransactionID stemOutputID) = Some rr
           \<and> SlotInflation rr = slotInflation
           \<and> Supply rr = Supply prev + SlotInflation rr
           \<and> unat (Supply rr) = (unat (Supply prev) + unat (SlotInflation rr)) mod 2 ^ 64"
proof -
  let ?par = "Some (branch_RootRecordParams prev stemOutputID seqID coverage slotInflation n)"
  show ?thesis
  proof (cases rule: Update_store_cases [of env muts ?par u])
    case unchanged
    with assms show ?thesis by simp
  next
    case (committed trie1 trie2 delta newRoot)
    from committed(4) assms
    have "store u' = committed_store env (store u) delta newRoot ?par" by simp
    then show ?thesis
      by (simp add: committed_store_def branch_RootRecordParams_def unat_word_ariths)
  qed
qed

lemma example_Update_ok:
  "Update example_env True (Some example_params) example_updatable =
     (None,
      \<lparr>trie = 0,
       store = \<lparr>trie_nodes = [[0, 1] \<mapsto> [2], [0, 3] \<mapsto> [4]],
                root_records = [take 32 example_stem \<mapsto>
                   \<lparr>Root = [1], SequencerID = replicate 32 9, LedgerCoverage = 1000,
                    SlotInflation = 100, Supply = 1100, NumTransactions = 3\<rparr>],
                latest_slot = Some 7\<rparr>\<rparr>)"
  by (simp add: Update_def updateUTXOLedgerDB_def example_env_def example_updatable_def
      example_params_def update_batch_def batch_Commit_def writeLatestSlot_def writeRootRecord_def
      FetchLatestCommittedSlot_def OutputID_TransactionID_def TransactionIDLength_def
      example_stem_def Uint32_def)

theorem Update_all_or_nothing_witness:
  "UpdateTrie example_env (trie example_updatable) False = (1, Some (Error ''mutation failed''))
   \<and> fst (Update example_env False (Some example_params) example_updatable)
       = Some (Error ''mutation failed'')
   \<and> store (snd (Update example_env False (Some example_params) example_updatable))
       = store example_updatable
   \<and> UpdateTrie example_env (trie example_updatable) True = (1, None)
   \<and> trie_Commit example_env 1 = (1, [([0, 1], [2]), ([0, 3], [4])], [1])
   \<and> store (snd (Update example_env True (Some example_params) example_updatable))
       = \<lparr>trie_nodes = [[0, 1] \<mapsto> [2], [0, 3] \<mapsto> [4]],
          root_records = [take 32 example_stem \<mapsto>
             \<lparr>Root = [1], SequencerID = replicate 32 9, LedgerCoverage = 1000,
              SlotInflation = 100, Supply = 1100, NumTransactions = 3\<rparr>],
          latest_slot = Some 7\<rparr>"
proof -
  have f: "UpdateTrie example_env (trie example_updatable) False = (1, Some (Error ''mutation failed''))"
    by (simp add: example_env_def example_updatable_def)
  have t: "UpdateTrie example_env (trie example_updatable) True = (1, None)"
    by (simp add: example_env_def example_updatable_def)
  have c: "trie_Commit example_env 1 = (1, [([0, 1], [2]), ([0, 3], [4])], [1])"
    by (simp add: example_env_def)
  have e: "engine_failure example_env st batch = None" for st batch
    by (simp add: example_env_def)
  have k: "committed_store example_env (store example_updatable) [([0, 1], [2]), ([0, 3], [4])] [1]
             (Some example_params)
           = \<lparr>trie_nodes = [[0, 1] \<mapsto> [2], [0, 3] \<mapsto> [4]],
          root_records = [take 32 example_stem \<mapsto>
             \<lparr>Root = [1], SequencerID = replicate 32 9, LedgerCoverage = 1000,
              SlotInflation = 100, Supply = 1100, NumTransactions = 3\<rparr>],
          latest_slot = Some 7\<rparr>"
    by (simp add: committed_store_def example_env_def example_updatable_def example_params_def
        FetchLatestCommittedSlot_def OutputID_TransactionID_def TransactionIDLength_def
        example_stem_def Uint32_def)
  note a = Update_all_or_nothing [of example_env example_updatable False "Some example_params"]
  note b = Update_all_or_nothing [of example_env example_updatable True "Some example_params"]
  from a f have 1: "fst (Update example_env False (Some example_params) example_updatable)
       = Some (Error ''mutation failed'')
   \<and> store (snd (Update example_env False (Some example_params) example_updatable))
       = store example_updatable"
    by blast
  from b t c have "let batch = update_batch example_env (store example_updatable)
                                 [([0, 1], [2]), ([0, 3], [4])] [1] (Some example_params)
     in (case engine_failure example_env (store example_updatable) batch of
                Some err \<Rightarrow>
                  fst (Update example_env True (Some example_params) example_updatable) = Some err
                  \<and> store (snd (Update example_env True (Some example_params) example_updatable))
                       = store example_updatable
              | None \<Rightarrow>
                  store (snd (Update example_env True (Some example_params) example_updatable))
                     = foldl apply_write (store example_updatable) batch
                  \<and> store (snd (Update example_env True (Some example_params) example_updatable))
                      = committed_store example_env (store example_updatable)
                          [([0, 1], [2]), ([0, 3], [4])] [1] (Some example_params))"
    unfolding Let_def by blast
  then have 2: "store (snd (Update example_env True (Some example_params) example_updatable))
       = \<lparr>trie_nodes = [[0, 1] \<mapsto> [2], [0, 3] \<mapsto> [4]],
          root_records = [take 32 example_stem \<mapsto>
             \<lparr>Root = [1], SequencerID = replicate 32 9, LedgerCoverage = 1000,
              SlotInflation = 100, Supply = 1100, NumTransactions = 3\<rparr>],
          latest_slot = Some 7\<rparr>"
    unfolding Let_def e option.case k by blast
  from f t c 1 2 show ?thesis by blast
qed

theorem latest_slot_monotone_witness:
  "fst (Update example_env True (Some example_params) example_updatable) = None
   \<and> FetchLatestCommittedSlot (store example_updatable) = 5
   \<and> Slot_of example_env (StemOutputID example_params) = 7
   \<and> latest_slot (store (snd (Update example_env True (Some example_params) example_updatable)))
       = Some 7
   \<and> latest_slot (store (snd (Update example_env True
         (Some (example_params\<lparr>StemOutputID := [0, 0, 0, 5] @ replicate 29 1\<rparr>)) example_updatable)))
       = Some 5"
proof -
  let ?low = "example_params\<lparr>StemOutputID := [0, 0, 0, 5] @ replicate 29 1\<rparr>"
  have ok: "fst (Update example_env True (Some example_params) example_updatable) = None"
    by (simp add: example_Update_ok)
  have ok': "fst (Update example_env True (Some ?low) example_updatable) = None"
    by (simp add: Update_def updateUTXOLedgerDB_def example_env_def example_updatable_def
        batch_Commit_def)
  have l: "FetchLatestCommittedSlot (store example_updatable) = 5"
    by (simp add: FetchLatestCommittedSlot_def example_updatable_def)
  have s: "Slot_of example_env (StemOutputID example_params) = 7"
    by (simp add: example_env_def example_params_def example_stem_def Uint32_def)
  have s': "Slot_of example_env (0 # 0 # 0 # 5 # replicate 29 1) = 5"
    by (simp add: example_env_def Uint32_def)
  have ls: "latest_slot (store example_updatable) = Some 5"
    by (simp add: example_updatable_def)
  note a = latest_slot_monotone [of "Some example_params" example_env True example_updatable "[]"]
  note b = latest_slot_monotone [of "Some ?low" example_env True example_updatable "[]"]
  from a ok have 1: "latest_slot (store (snd (Update example_env True (Some example_params) example_updatable)))
       = Some 7"
    by (simp add: l s)
  from b ok' have 2: "latest_slot (store (snd (Update example_env True (Some ?low) example_updatable)))
       = Some 5"
    by (simp add: l s' ls)
  from ok l s 1 2 show ?thesis by blast
qed

theorem branch_supply_identity_witness:
  "Update example_env True
     (Some (branch_RootRecordParams example_prev example_stem (replicate 32 9) 1000 100 3))
     example_updatable
     = (None, snd (Update example_env True
          (Some (branch_RootRecordParams example_prev example_stem (replicate 32 9) 1000 100 3))
          example_updatable))
   \<and> (\<exists>rr. root_records (store (snd (Update example_env True
          (Some (branch_RootRecordParams example_prev example_stem (replicate 32 9) 1000 100 3))
          example_updatable))) (OutputID_TransactionID example_stem) = Some rr
         \<and> Supply rr = 1100)"
proof -
  let ?par = "Some (branch_RootRecordParams example_prev example_stem (replicate 32 9) 1000 100 3)"
  have "fst (Update example_env True ?par example_updatable) = None"
    by (simp add: Update_def updateUTXOLedgerDB_def example_env_def example_updatable_def
        batch_Commit_def)
  then have ok: "Update example_env True ?par example_updatable
                  = (None, snd (Update example_env True ?par example_updatable))"
    by (simp add: prod_eq_iff)
  from branch_supply_identity [OF ok]
  have "\<exists>rr. root_records (store (snd (Update example_env True ?par example_updatable)))
              (OutputID_TransactionID example_stem) = Some rr \<and> Supply rr = 1100"
    by (auto simp add: example_prev_def)
  with ok show ?thesis by blast
qed

section \<open>The stem output\<close>

lemma GetStem_unfold:
  "GetStem slot_of StemAccountID tr =
     (case GetStem_iterate slot_of tr (length (stem_prefix StemAccountID))
             (IterateKeys tr (stem_prefix StemAccountID)) (0, 0, []) of
        Inl err \<Rightarrow> Inl err
      | Inr (count, retSlot, retBytes) \<Rightarrow> Inr (retSlot, retBytes))"
  by (simp add: GetStem_def stem_prefix_def Let_def)

text \<open>
  With exactly one index record under the stem account, whose output ID resolves in the
  ledger-state partition, \<^verbatim>\<open>GetStem\<close> returns the slot and the bytes of that output:
  no assertion fails.
\<close>

lemma GetStem_one_record:
  assumes "IterateKeys tr (stem_prefix StemAccountID) = [stem_prefix StemAccountID @ oid]"
    and "length oid = OutputIDLength"
    and "map_of tr (PartitionLedgerState # oid) = Some bytes"
    and "bytes \<noteq> []"
  shows "GetStem slot_of StemAccountID tr = Inr (slot_of oid, bytes)"
  using assms
  by (simp add: GetStem_unfold OutputIDFromBytes_def Readable_getUTXO_def trie_Get_def)

text \<open>A record that does not resolve, and a second record, each fail an assertion.\<close>

lemma GetStem_unresolved_record:
  assumes "IterateKeys tr (stem_prefix StemAccountID) = (stem_prefix StemAccountID @ oid) # ks"
    and "length oid = OutputIDLength"
    and "trie_Get tr (PartitionLedgerState # oid) = []"
  shows "GetStem slot_of StemAccountID tr = Inl (Panic ''can't find stem output'')"
  using assms
  by (simp add: GetStem_unfold OutputIDFromBytes_def Readable_getUTXO_def)

lemma GetStem_two_records:
  assumes "IterateKeys tr (stem_prefix StemAccountID) = (stem_prefix StemAccountID @ oid) # k # ks"
    and "length oid = OutputIDLength"
    and "trie_Get tr (PartitionLedgerState # oid) \<noteq> []"
  shows "GetStem slot_of StemAccountID tr
           = Inl (Panic ''inconsistency: must be exactly 1 index record for stem output'')"
  using assms
  by (simp add: GetStem_unfold OutputIDFromBytes_def Readable_getUTXO_def)

text \<open>
  Claim C9, at the input where the code departs from it. On a state with no index record
  under the stem account the callback never runs, no assertion is evaluated, and
  \<^verbatim>\<open>GetStem\<close> returns slot 0 and no bytes instead of failing.
\<close>

theorem GetStem_no_stem_record:
  assumes "IterateKeys tr ([PartitionAccounts, of_nat (length StemAccountID)] @ StemAccountID) = []"
  shows "GetStem slot_of StemAccountID tr = Inr (0, [])"
  using assms by (simp add: GetStem_def)

theorem GetStem_no_stem_record_witness:
  "IterateKeys [(PartitionLedgerState # replicate 33 7, [1, 2, 3])]
      ([PartitionAccounts, of_nat (length [0 :: byte])] @ [0]) = []
   \<and> GetStem (\<lambda>oid. Uint32 (take 4 oid)) [0] [(PartitionLedgerState # replicate 33 7, [1, 2, 3])]
       = Inr (0, [])
   \<and> GetStem (\<lambda>oid. Uint32 (take 4 oid)) [0] [] = Inr (0, [])"
proof -
  have a: "IterateKeys [(PartitionLedgerState # replicate 33 7, [1, 2, 3])]
      ([PartitionAccounts, of_nat (length [0 :: byte])] @ [0]) = []"
    by (simp add: IterateKeys_def PartitionLedgerState_def PartitionAccounts_def)
  have b: "IterateKeys [] ([PartitionAccounts, of_nat (length [0 :: byte])] @ [0]) = []"
    by (simp add: IterateKeys_def)
  from GetStem_no_stem_record [OF a] GetStem_no_stem_record [OF b] a show ?thesis by blast
qed

text \<open>A state with its stem output, run.\<close>

lemma GetStem_example:
  "GetStem (\<lambda>oid. Uint32 (take 4 oid)) [0]
     [(PartitionLedgerState # [0, 0, 0, 7] @ replicate 29 1, [1, 2, 3]),
      ([PartitionAccounts, 1, 0] @ [0, 0, 0, 7] @ replicate 29 1, [255])]
   = Inr (7, [1, 2, 3])"
  by (simp add: GetStem_def IterateKeys_def PartitionLedgerState_def PartitionAccounts_def
      OutputIDFromBytes_def OutputIDLength_def TransactionIDLength_def Readable_getUTXO_def
      trie_Get_def Uint32_def)

section \<open>Round trips of the encodings\<close>





end
